theory Spec2Isabelle
  imports Complex_Main
begin

section \<open>Python values\<close>

text \<open>
  The backend is Python 3.  A float is an IEEE double: a finite value (kept as the
  rational it denotes), one of the two infinities, or not-a-number.  An \<open>int\<close> that
  reaches a comparison with a float is compared by exact value, so both are kept in
  the \<open>Finite\<close> case.
\<close>

datatype pyfloat = Finite rat | PosInf | NegInf | NaN

text \<open>\<open>x > k\<close> and \<open>x < k\<close> for a float \<open>x\<close> and an integer literal \<open>k\<close>.\<close>

fun float_gt :: "pyfloat \<Rightarrow> int \<Rightarrow> bool" where
  "float_gt (Finite q) k = (of_int k < q)"
| "float_gt PosInf k = True"
| "float_gt NegInf k = False"
| "float_gt NaN k = False"

fun float_lt :: "pyfloat \<Rightarrow> int \<Rightarrow> bool" where
  "float_lt (Finite q) k = (q < of_int k)"
| "float_lt PosInf k = False"
| "float_lt NegInf k = True"
| "float_lt NaN k = False"

text \<open>
  The values \<open>json.loads\<close> produces, which are also the values an attribute of a
  row object can hold: \<open>None\<close>, a bool, a number, a str, a list, a dict (an
  association list with the keys in document order).
\<close>

datatype pyval =
    PNone
  | PBool bool
  | PNum pyfloat
  | PStr string
  | PList "pyval list"
  | PDict "(string \<times> pyval) list"

text \<open>The exceptions the modelled code can raise.\<close>

datatype py_error =
    TypeError
  | KeyError
  | AttributeError
  | IndexError
  | ValueError
  | RuntimeError
  | JSONDecodeError
  | PredictorError
  | SQLAlchemyError
  | HTTPException nat

text \<open>
  \<open>v > k\<close> and \<open>v < k\<close> for an arbitrary value \<open>v\<close>: numbers compare, a bool
  compares as the integer 0 or 1, everything else (in particular \<open>None\<close>) raises
  \<open>TypeError\<close>.
\<close>

fun py_gt :: "pyval \<Rightarrow> int \<Rightarrow> py_error + bool" where
  "py_gt (PNum x) k = Inr (float_gt x k)"
| "py_gt (PBool b) k = Inr (k < (if b then 1 else 0))"
| "py_gt PNone k = Inl TypeError"
| "py_gt (PStr s) k = Inl TypeError"
| "py_gt (PList xs) k = Inl TypeError"
| "py_gt (PDict kvs) k = Inl TypeError"

fun py_lt :: "pyval \<Rightarrow> int \<Rightarrow> py_error + bool" where
  "py_lt (PNum x) k = Inr (float_lt x k)"
| "py_lt (PBool b) k = Inr ((if b then 1 else 0) < k)"
| "py_lt PNone k = Inl TypeError"
| "py_lt (PStr s) k = Inl TypeError"
| "py_lt (PList xs) k = Inl TypeError"
| "py_lt (PDict kvs) k = Inl TypeError"

section \<open>Rows of the store (models.py)\<close>

text \<open>
  Only the columns that the modelled code writes or reads are kept; the primary key
  and the columns nothing assigns are left out.  A timestamp is an instant counted
  from some epoch.  Field names shared by several tables carry a prefix.
\<close>

type_synonym datetime = nat

record SolenoidState =
  ss_valve_number :: pyval
  ss_state :: bool
  ss_timestamp :: datetime
  ss_device_id :: pyval

record WeatherReading =
  temperature :: pyval
  humidity :: pyval
  pressure :: pyval
  wind_speed :: pyval
  rain_1h :: pyval
  solar_radiation :: pyval
  wr_timestamp :: datetime
  wr_device_id :: pyval

record IrrigationEvent =
  ev_valve_number :: "int option"
  ev_zone_id :: int
  action :: string
  ev_duration_minutes :: "int option"
  triggered_by :: string
  ev_confidence :: "rat option"
  ev_timestamp :: datetime

record FarmZone =
  fz_id :: int
  fz_valves :: "int list"

section \<open>Decision engine\<close>

text \<open>
  The predictive model is an object with the two methods the code calls.  Each takes
  the feature matrix (one row per sample) and may raise; \<open>predict\<close> returns one
  label per row, \<open>predict_proba\<close> one row of class probabilities per sample.
  Probabilities are finite floats and are kept as rationals, as is the literal
  \<open>0.7\<close>.
\<close>

record predictor =
  predict :: "pyval list list \<Rightarrow> py_error + int list"
  predict_proba :: "pyval list list \<Rightarrow> py_error + rat list list"

text \<open>The dict returned by \<open>make_irrigation_decision\<close>.\<close>

record decision =
  should_irrigate :: bool
  confidence :: rat
  reason :: string
  valves_to_open :: "int list"
  duration_minutes :: int

text \<open>
  The three reason texts of the heuristic rules.  Each \<open>char\<close> is one code point;
  the accented letters are U+00E7, U+00F5 and U+00ED.
\<close>

definition reason_rain :: string where
  "reason_rain = ''Chuva recente detectada''"

definition reason_humidity :: string where
  "reason_humidity = ''Umidade ambiente alta''"

definition reason_stress :: string where
  "reason_stress = ''Condi'' @ [CHR 0xE7, CHR 0xF5] @ ''es de estresse h'' @ [CHR 0xED] @ ''drico''"

text \<open>
  The \<open>if\<close>/\<open>elif\<close> chain of the fallback, run on a reading that is not \<open>None\<close>:
  the pair \<open>(should_irrigate, reason)\<close> it leaves, or the exception of the first
  comparison that raises.  \<open>and\<close> evaluates its right operand only when the left
  one is true.
\<close>

definition heuristic_rules :: "WeatherReading \<Rightarrow> py_error + bool \<times> string" where
  "heuristic_rules weather =
     (case py_gt (rain_1h weather) 5 of
        Inl e \<Rightarrow> Inl e
      | Inr True \<Rightarrow> Inr (False, reason_rain)
      | Inr False \<Rightarrow>
          (case py_gt (humidity weather) 70 of
             Inl e \<Rightarrow> Inl e
           | Inr True \<Rightarrow> Inr (False, reason_humidity)
           | Inr False \<Rightarrow>
               (case py_gt (temperature weather) 30 of
                  Inl e \<Rightarrow> Inl e
                | Inr False \<Rightarrow> Inr (False, [])
                | Inr True \<Rightarrow>
                    (case py_lt (humidity weather) 40 of
                       Inl e \<Rightarrow> Inl e
                     | Inr True \<Rightarrow> Inr (True, reason_stress)
                     | Inr False \<Rightarrow> Inr (False, [])))))"

text \<open>The feature matrix \<open>np.array([...]).reshape(1, -1)\<close>: one row of three.\<close>

definition features_of :: "WeatherReading option \<Rightarrow> pyval list list" where
  "features_of weather =
     [[case weather of Some w \<Rightarrow> temperature w | None \<Rightarrow> PNum (Finite 25),
       case weather of Some w \<Rightarrow> humidity w | None \<Rightarrow> PNum (Finite 60),
       case weather of Some w \<Rightarrow> rain_1h w | None \<Rightarrow> PNum (Finite 0)]]"

text \<open>\<open>a[0]\<close> and \<open>row.max()\<close>; both raise on an empty array.\<close>

definition first_of :: "'a list \<Rightarrow> py_error + 'a" where
  "first_of xs = (case xs of [] \<Rightarrow> Inl IndexError | x # _ \<Rightarrow> Inr x)"

definition max_of :: "rat list \<Rightarrow> py_error + rat" where
  "max_of xs = (case xs of [] \<Rightarrow> Inl ValueError | x # ys \<Rightarrow> Inr (fold max ys x))"

definition make_irrigation_decision ::
  "WeatherReading option \<Rightarrow> IrrigationEvent option \<Rightarrow> predictor option \<Rightarrow> py_error + decision"
where
  "make_irrigation_decision weather last_irrigation model =
     (case model of
        Some m \<Rightarrow>
          (case predict m (features_of weather) of
             Inl e \<Rightarrow> Inl e
           | Inr labels \<Rightarrow>
               (case first_of labels of
                  Inl e \<Rightarrow> Inl e
                | Inr prediction \<Rightarrow>
                    (case predict_proba m (features_of weather) of
                       Inl e \<Rightarrow> Inl e
                     | Inr rows \<Rightarrow>
                         (case first_of rows of
                            Inl e \<Rightarrow> Inl e
                          | Inr row \<Rightarrow>
                              (case max_of row of
                                 Inl e \<Rightarrow> Inl e
                               | Inr conf \<Rightarrow>
                                   Inr \<lparr>should_irrigate = (prediction = 1),
                                        confidence = conf,
                                        reason = ''ml_prediction'',
                                        valves_to_open = [1, 2, 3],
                                        duration_minutes = 30\<rparr>)))))
      | None \<Rightarrow>
          (case (case weather of
                   None \<Rightarrow> Inr (False, [])
                 | Some w \<Rightarrow> heuristic_rules w) of
             Inl e \<Rightarrow> Inl e
           | Inr (irrigate, why) \<Rightarrow>
               Inr \<lparr>should_irrigate = irrigate,
                    confidence = 7 / 10,
                    reason = why,
                    valves_to_open = (if irrigate then [1, 2] else []),
                    duration_minutes = 25\<rparr>))"

section \<open>Shared state\<close>

text \<open>
  An outbound command is the dict handed to \<open>json.dumps\<close>, with its keys in source
  order; \<open>FTime t\<close> stands for the text \<open>t.isoformat()\<close>.
\<close>

datatype field = FStr string | FInt int | FNone | FTime datetime

type_synonym command = "(string \<times> field) list"

text \<open>The frame \<open>notify_clients\<close> is asked to send.\<close>

record notification =
  ntype :: string
  ntopic :: string
  ndata :: pyval

text \<open>
  Everything the handlers read or change: the four tables in insertion order, the
  messages published on the MQTT client as (topic, payload) pairs, the global list
  \<open>connected_clients\<close> of websocket handles, the \<open>notify_clients\<close> coroutines
  scheduled on the event loop by \<open>asyncio.create_task\<close>, and the frames that
  reached a websocket.

  The store decides what \<open>db.commit()\<close> does with the telemetry rows handed to it,
  whose values come from the device as they are: \<open>commit_states\<close> and
  \<open>commit_weather\<close> either raise, storing nothing, or give the rows as the tables
  hold them, which need not be the rows as handed over (a column may round or
  convert a value).  The event rows are built by the dispatcher itself and are
  taken to be accepted.
\<close>

record world =
  solenoid_states :: "SolenoidState list"
  weather_readings :: "WeatherReading list"
  irrigation_events :: "IrrigationEvent list"
  farm_zones :: "FarmZone list"
  commit_states :: "SolenoidState list \<Rightarrow> py_error + SolenoidState list"
  commit_weather :: "WeatherReading \<Rightarrow> py_error + WeatherReading"
  published :: "(string \<times> command) list"
  connected_clients :: "nat list"
  tasks :: "notification list"
  delivered :: "(nat \<times> notification) list"

section \<open>Telemetry ingestion\<close>

text \<open>\<open>d.get(key, default)\<close> on the items of a dict.\<close>

definition get_or :: "(string \<times> pyval) list \<Rightarrow> string \<Rightarrow> pyval \<Rightarrow> pyval" where
  "get_or kvs k dflt = (case map_of kvs k of Some v \<Rightarrow> v | None \<Rightarrow> dflt)"

text \<open>\<open>v.get(key, default)\<close>: only a dict has the method.\<close>

definition dict_get :: "pyval \<Rightarrow> string \<Rightarrow> pyval \<Rightarrow> py_error + pyval" where
  "dict_get v k dflt =
     (case v of PDict kvs \<Rightarrow> Inr (get_or kvs k dflt) | _ \<Rightarrow> Inl AttributeError)"

text \<open>\<open>v[key]\<close> with a str key: a missing key of a dict, or any value that is not a dict.\<close>

definition subscript :: "pyval \<Rightarrow> string \<Rightarrow> py_error + pyval" where
  "subscript v k =
     (case v of
        PDict kvs \<Rightarrow> (case map_of kvs k of Some x \<Rightarrow> Inr x | None \<Rightarrow> Inl KeyError)
      | _ \<Rightarrow> Inl TypeError)"

text \<open>
  The items a \<open>for\<close> loop visits: the elements of a list, the keys of a dict, the
  characters of a str; nothing else is iterable.
\<close>

definition py_iter :: "pyval \<Rightarrow> py_error + pyval list" where
  "py_iter v =
     (case v of
        PList xs \<Rightarrow> Inr xs
      | PDict kvs \<Rightarrow> Inr (map (\<lambda>kv. PStr (fst kv)) kvs)
      | PStr s \<Rightarrow> Inr (map (\<lambda>c. PStr [c]) s)
      | _ \<Rightarrow> Inl TypeError)"

text \<open>\<open>sub in s\<close> on strings.\<close>

fun contains :: "string \<Rightarrow> string \<Rightarrow> bool" where
  "contains [] sub = (sub = [])"
| "contains (c # cs) sub = (take (length sub) (c # cs) = sub \<or> contains cs sub)"

text \<open>
  The body of the loop of \<open>save_valve_status\<close>, over the items still to visit: the
  rows handed to \<open>db.add\<close>, or the exception that ends the loop.
\<close>

fun save_valve_loop :: "datetime \<Rightarrow> pyval \<Rightarrow> pyval list \<Rightarrow> py_error + SolenoidState list" where
  "save_valve_loop now data [] = Inr []"
| "save_valve_loop now data (valve_data # rest) =
     (case subscript valve_data ''number'' of
        Inl e \<Rightarrow> Inl e
      | Inr n \<Rightarrow>
          (case subscript valve_data ''state'' of
             Inl e \<Rightarrow> Inl e
           | Inr st \<Rightarrow>
               (case dict_get data ''device_id'' (PStr ''unknown'') of
                  Inl e \<Rightarrow> Inl e
                | Inr dev \<Rightarrow>
                    (case save_valve_loop now data rest of
                       Inl e \<Rightarrow> Inl e
                     | Inr added \<Rightarrow>
                         Inr (\<lparr>ss_valve_number = n, ss_state = (st = PStr ''ON''),
                               ss_timestamp = now, ss_device_id = dev\<rparr> # added)))))"

text \<open>
  An exception in the loop leaves before \<open>db.commit()\<close>, and a commit that raises
  stores nothing, so a batch is stored whole or not at all.
\<close>

definition save_valve_status :: "datetime \<Rightarrow> pyval \<Rightarrow> world \<Rightarrow> py_error + world" where
  "save_valve_status now data w =
     (case dict_get data ''valves'' (PList []) of
        Inl e \<Rightarrow> Inl e
      | Inr vs \<Rightarrow>
          (case py_iter vs of
             Inl e \<Rightarrow> Inl e
           | Inr items \<Rightarrow>
               (case save_valve_loop now data items of
                  Inl e \<Rightarrow> Inl e
                | Inr added \<Rightarrow>
                    (case commit_states w added of
                       Inl e \<Rightarrow> Inl e
                     | Inr stored \<Rightarrow>
                         Inr (w\<lparr>solenoid_states := solenoid_states w @ stored\<rparr>)))))"

text \<open>The object \<open>WeatherReading(...)\<close> built from the items of the payload.\<close>

definition weather_row :: "datetime \<Rightarrow> (string \<times> pyval) list \<Rightarrow> WeatherReading" where
  "weather_row now kvs =
     \<lparr>temperature = get_or kvs ''temperature'' PNone,
      humidity = get_or kvs ''humidity'' PNone,
      pressure = get_or kvs ''pressure'' PNone,
      wind_speed = get_or kvs ''wind_speed'' PNone,
      rain_1h = get_or kvs ''rain_1h'' PNone,
      solar_radiation = get_or kvs ''solar_radiation'' PNone,
      wr_timestamp = now,
      wr_device_id = get_or kvs ''device_id'' (PStr ''unknown'')\<rparr>"

definition save_weather_data :: "datetime \<Rightarrow> pyval \<Rightarrow> world \<Rightarrow> py_error + world" where
  "save_weather_data now data w =
     (case data of
        PDict kvs \<Rightarrow>
          (case commit_weather w (weather_row now kvs) of
             Inl e \<Rightarrow> Inl e
           | Inr stored \<Rightarrow> Inr (w\<lparr>weather_readings := weather_readings w @ [stored]\<rparr>))
      | _ \<Rightarrow> Inl AttributeError)"

text \<open>\<open>handle_alert\<close> only prints two \<open>data.get\<close> results.\<close>

definition handle_alert :: "pyval \<Rightarrow> world \<Rightarrow> py_error + world" where
  "handle_alert data w = (case data of PDict kvs \<Rightarrow> Inr w | _ \<Rightarrow> Inl AttributeError)"

text \<open>
  An inbound message: its topic and the outcome of
  \<open>json.loads(msg.payload.decode())\<close>.
\<close>

record message =
  topic :: string
  payload :: "py_error + pyval"

text \<open>The \<open>if\<close>/\<open>elif\<close> chain of \<open>on_mqtt_message\<close> between opening and closing the session.\<close>

definition route_by_topic :: "datetime \<Rightarrow> string \<Rightarrow> pyval \<Rightarrow> world \<Rightarrow> py_error + world" where
  "route_by_topic now tp data w =
     (if contains tp ''status'' then save_valve_status now data w
      else if contains tp ''weather'' then save_weather_data now data w
      else if contains tp ''alerts'' then handle_alert data w
      else Inr w)"

text \<open>
  The whole body runs inside one \<open>try\<close>; the handler only prints the exception.
  \<open>asyncio.create_task\<close> raises \<open>RuntimeError\<close> when the calling thread has no
  running event loop, which \<open>running_loop\<close> records.
\<close>

definition on_mqtt_message :: "bool \<Rightarrow> datetime \<Rightarrow> message \<Rightarrow> world \<Rightarrow> world" where
  "on_mqtt_message running_loop now msg w =
     (case payload msg of
        Inl e \<Rightarrow> w
      | Inr data \<Rightarrow>
          (case route_by_topic now (topic msg) data w of
             Inl e \<Rightarrow> w
           | Inr w' \<Rightarrow>
               if running_loop
               then w'\<lparr>tasks := tasks w' @
                        [\<lparr>ntype = ''mqtt_update'', ntopic = topic msg, ndata = data\<rparr>]\<rparr>
               else w'))"

section \<open>Command dispatch\<close>

text \<open>
  Modelled from the spec: \<open>ValveCommand\<close> is declared in \<open>schemas.py\<close>, which is not
  among the sources; the request carries the fields \<open>control_valve\<close> reads, the
  boolean \<open>state\<close> and the optional \<open>duration_minutes\<close>.
\<close>

record ValveCommand =
  cmd_state :: bool
  cmd_duration_minutes :: "int option"

definition command_topic :: string where
  "command_topic = ''agroirriga/agroirriga_fazenda_01/command''"

definition opt_field :: "int option \<Rightarrow> field" where
  "opt_field d = (case d of Some n \<Rightarrow> FInt n | None \<Rightarrow> FNone)"

text \<open>
  Each handler returns what the endpoint returns or raises, together with the state
  it leaves.  The body of a successful response repeats its arguments and is not
  kept, except for the decision of \<open>smart_irrigation\<close>.  A row created without a
  \<open>zone_id\<close> takes the column default 1.
\<close>

definition control_valve ::
  "datetime \<Rightarrow> int \<Rightarrow> ValveCommand \<Rightarrow> world \<Rightarrow> (py_error + unit) \<times> world"
where
  "control_valve now valve_number command w =
     (if valve_number < 1 \<or> valve_number > 10 then (Inl (HTTPException 400), w)
      else
        let mqtt_payload =
              [(''action'', FStr (if cmd_state command then ''valve_on'' else ''valve_off'')),
               (''valve'', FInt valve_number),
               (''duration'',
                  if cmd_state command then opt_field (cmd_duration_minutes command) else FInt 0),
               (''timestamp'', FTime now),
               (''source'', FStr ''web_api'')];
            w1 = w\<lparr>published := published w @ [(command_topic, mqtt_payload)]\<rparr>;
            event =
              \<lparr>ev_valve_number = Some valve_number,
               ev_zone_id = 1,
               action = (if cmd_state command then ''ON'' else ''OFF''),
               ev_duration_minutes =
                 (if cmd_state command then cmd_duration_minutes command else None),
               triggered_by = ''manual'',
               ev_confidence = None,
               ev_timestamp = now\<rparr>
        in (Inr (), w1\<lparr>irrigation_events := irrigation_events w1 @ [event]\<rparr>))"

definition all_valves_off :: "datetime \<Rightarrow> world \<Rightarrow> (py_error + unit) \<times> world" where
  "all_valves_off now w =
     (let mqtt_payload = [(''action'', FStr ''valve_all_off''), (''timestamp'', FTime now)]
      in (Inr (), w\<lparr>published := published w @ [(command_topic, mqtt_payload)]\<rparr>))"

text \<open>
  \<open>order_by(timestamp.desc()).first()\<close>: a row with the greatest timestamp, if there
  is a row.  Among equal timestamps the store chooses; the model takes the one
  inserted first.
\<close>

fun latest_by :: "('a \<Rightarrow> datetime) \<Rightarrow> 'a list \<Rightarrow> 'a option" where
  "latest_by ts [] = None"
| "latest_by ts (x # xs) =
     (case latest_by ts xs of
        None \<Rightarrow> Some x
      | Some y \<Rightarrow> if ts x < ts y then Some y else Some x)"

text \<open>The global \<open>ml_model\<close> is an argument.\<close>

definition smart_irrigation ::
  "predictor option \<Rightarrow> datetime \<Rightarrow> int \<Rightarrow> world \<Rightarrow> (py_error + decision) \<times> world"
where
  "smart_irrigation ml_model now zone_id w =
     (let weather = latest_by wr_timestamp (weather_readings w);
          last_irrigation =
            latest_by ev_timestamp (filter (\<lambda>e. ev_zone_id e = zone_id) (irrigation_events w))
      in case make_irrigation_decision weather last_irrigation ml_model of
           Inl e \<Rightarrow> (Inl e, w)
         | Inr d \<Rightarrow>
             if should_irrigate d then
               let w1 = w\<lparr>published := published w @
                          map (\<lambda>valve.
                                 (command_topic,
                                  [(''action'', FStr ''valve_on''),
                                   (''valve'', FInt valve),
                                   (''duration'', FInt (duration_minutes d)),
                                   (''reason'', FStr ''ml_recommendation'')]))
                              (valves_to_open d)\<rparr>;
                   event =
                     \<lparr>ev_valve_number = None,
                      ev_zone_id = zone_id,
                      action = ''SMART_ON'',
                      ev_duration_minutes = Some (duration_minutes d),
                      triggered_by = ''ml_model'',
                      ev_confidence = Some (confidence d),
                      ev_timestamp = now\<rparr>
               in (Inr d, w1\<lparr>irrigation_events := irrigation_events w1 @ [event]\<rparr>)
             else (Inr d, w))"

section \<open>Live notification\<close>

text \<open>
  \<open>send_json client message\<close> tells whether the send to that websocket returns
  (\<open>True\<close>) or raises.  The coroutine is suspended at each \<open>await\<close> of a send, and
  other tasks run meanwhile: \<open>websocket_endpoint\<close> appends a new handle or, on a
  disconnect, removes its own, and an overlapping broadcast removes the handles it
  found dead.  The \<open>k\<close>-th element of \<open>interference\<close> lists the changes made to
  \<open>connected_clients\<close> during the \<open>k\<close>-th await; past its end nothing interferes.
\<close>

datatype list_change = Connect nat | Disconnect nat

fun apply_change :: "list_change \<Rightarrow> nat list \<Rightarrow> nat list" where
  "apply_change (Connect c) clients = clients @ [c]"
| "apply_change (Disconnect c) clients = remove1 c clients"

text \<open>
  The first loop iterates over the global list itself: the iterator holds a position
  \<open>i\<close> and stops when the list, as it is by then, has no element there.  The result
  is the frames sent, the clients whose send raised, and the list as the loop leaves
  it.
\<close>

function send_loop ::
  "(nat \<Rightarrow> notification \<Rightarrow> bool) \<Rightarrow> notification \<Rightarrow> list_change list list \<Rightarrow> nat \<Rightarrow>
   nat list \<Rightarrow> (nat \<times> notification) list \<times> nat list \<times> nat list"
where
  "send_loop send_json message interference i clients =
     (if i < length clients then
        let client = clients ! i;
            during = (case interference of [] \<Rightarrow> [] | changes # later \<Rightarrow> changes);
            (sent, disconnected, final) =
              send_loop send_json message (tl interference) (Suc i) (fold apply_change during clients)
        in if send_json client message then ((client, message) # sent, disconnected, final)
           else (sent, client # disconnected, final)
      else ([], [], clients))"
  by pat_completeness auto
termination
  by (relation "measures [\<lambda>(send_json, message, interference, i, clients). length interference,
                          \<lambda>(send_json, message, interference, i, clients). length clients - i]")
     (auto split: list.splits)

declare send_loop.simps [simp del]

text \<open>
  The second loop has no \<open>await\<close>: it removes the first occurrence of each client
  whose send raised, if the client is still in the list.
\<close>

fun remove_loop :: "nat list \<Rightarrow> nat list \<Rightarrow> nat list" where
  "remove_loop [] clients = clients"
| "remove_loop (client # rest) clients =
     remove_loop rest (if client \<in> set clients then remove1 client clients else clients)"

definition notify_clients ::
  "(nat \<Rightarrow> notification \<Rightarrow> bool) \<Rightarrow> list_change list list \<Rightarrow> notification \<Rightarrow> world \<Rightarrow> world"
where
  "notify_clients send_json interference message w =
     (let (sent, disconnected, final) =
            send_loop send_json message interference 0 (connected_clients w)
      in w\<lparr>connected_clients := remove_loop disconnected final,
            delivered := delivered w @ sent\<rparr>)"

section \<open>Periodic tasks\<close>

text \<open>
  \<open>ml_irrigation_advisor\<close> loops forever: it sleeps 21600 seconds and prints a
  line.  The function gives the seconds slept and the state after the first \<open>n\<close>
  rounds.
\<close>

fun ml_irrigation_advisor :: "nat \<Rightarrow> nat \<times> world \<Rightarrow> nat \<times> world" where
  "ml_irrigation_advisor 0 (slept, w) = (slept, w)"
| "ml_irrigation_advisor (Suc n) (slept, w) = ml_irrigation_advisor n (slept + 21600, w)"

section \<open>Sample inputs\<close>

text \<open>
  A store for the sample states.  It takes a row when every value is one the
  declared column holds as it is: a null where the column allows it, an integer
  within the 32 bits of an \<open>Integer\<close> column or the 53 bits a \<open>Float\<close> column keeps
  exactly, a string within the 50 characters of \<open>String(50)\<close>.  It refuses every
  other row.
\<close>

fun float_column :: "pyval \<Rightarrow> bool" where
  "float_column PNone = True"
| "float_column (PNum (Finite q)) = (of_int \<lfloor>q\<rfloor> = q \<and> \<bar>q\<bar> \<le> 2 ^ 53)"
| "float_column v = False"

fun integer_column :: "pyval \<Rightarrow> bool" where
  "integer_column (PNum (Finite q)) = (of_int \<lfloor>q\<rfloor> = q \<and> - (2 ^ 31) \<le> q \<and> q < 2 ^ 31)"
| "integer_column v = False"

fun string_column :: "pyval \<Rightarrow> bool" where
  "string_column PNone = True"
| "string_column (PStr s) = (length s \<le> 50)"
| "string_column v = False"

definition strict_commit_states :: "SolenoidState list \<Rightarrow> py_error + SolenoidState list" where
  "strict_commit_states rows =
     (if list_all (\<lambda>r. integer_column (ss_valve_number r) \<and> string_column (ss_device_id r)) rows
      then Inr rows else Inl SQLAlchemyError)"

definition strict_commit_weather :: "WeatherReading \<Rightarrow> py_error + WeatherReading" where
  "strict_commit_weather r =
     (if float_column (temperature r) \<and> float_column (humidity r) \<and> float_column (pressure r)
         \<and> float_column (wind_speed r) \<and> float_column (rain_1h r)
         \<and> float_column (solar_radiation r) \<and> string_column (wr_device_id r)
      then Inr r else Inl SQLAlchemyError)"

definition world0 :: world where
  "world0 =
     \<lparr>solenoid_states = [], weather_readings = [], irrigation_events = [], farm_zones = [],
      commit_states = strict_commit_states, commit_weather = strict_commit_weather,
      published = [], connected_clients = [], tasks = [], delivered = []\<rparr>"

text \<open>A reading with the given temperature, humidity and rain, and nothing else.\<close>

definition reading :: "pyval \<Rightarrow> pyval \<Rightarrow> pyval \<Rightarrow> WeatherReading" where
  "reading t h r =
     \<lparr>temperature = t, humidity = h, pressure = PNone, wind_speed = PNone, rain_1h = r,
      solar_radiation = PNone, wr_timestamp = 0, wr_device_id = PStr ''unknown''\<rparr>"

definition rainy :: WeatherReading where
  "rainy = reading (PNum (Finite 20)) (PNum (Finite 50)) (PNum (Finite 6))"

definition humid :: WeatherReading where
  "humid = reading (PNum (Finite 35)) (PNum (Finite 80)) (PNum (Finite 0))"

definition hot_dry :: WeatherReading where
  "hot_dry = reading (PNum (Finite 32)) (PNum (Finite 35)) (PNum (Finite 0))"

definition mild :: WeatherReading where
  "mild = reading (PNum (Finite 20)) (PNum (Finite 50)) (PNum (Finite 0))"

text \<open>What \<open>save_weather_data\<close> stores for a payload without the key \<open>rain_1h\<close>.\<close>

definition no_rain_field :: WeatherReading where
  "no_rain_field = reading (PNum (Finite 32)) (PNum (Finite 35)) PNone"

text \<open>A model that always answers label 1 with class probabilities 0.1 and 0.9.\<close>

definition always_irrigate :: predictor where
  "always_irrigate =
     \<lparr>predict = (\<lambda>features. Inr [1]), predict_proba = (\<lambda>features. Inr [[1 / 10, 9 / 10]])\<rparr>"

text \<open>A weather payload without the key \<open>rain_1h\<close>, and one with values out of range.\<close>

definition no_rain_payload :: pyval where
  "no_rain_payload =
     PDict [(''temperature'', PNum (Finite 32)), (''humidity'', PNum (Finite 35))]"

definition out_of_range_payload :: pyval where
  "out_of_range_payload =
     PDict [(''humidity'', PNum (Finite 150)), (''rain_1h'', PNum (Finite (- 3)))]"

text \<open>A weather payload whose humidity is a string.\<close>

definition text_humidity_payload :: pyval where
  "text_humidity_payload = PDict [(''humidity'', PStr ''wet'')]"

text \<open>A status report for valve 3, and one whose valve entry is an empty dict.\<close>

definition status_message :: message where
  "status_message =
     \<lparr>topic = ''agroirriga/d1/status'',
      payload = Inr (PDict [(''device_id'', PStr ''d1''),
                            (''valves'', PList [PDict [(''number'', PNum (Finite 3)),
                                                       (''state'', PStr ''ON'')]])])\<rparr>"

definition broken_status_message :: message where
  "broken_status_message =
     \<lparr>topic = ''agroirriga/d1/status'',
      payload = Inr (PDict [(''device_id'', PStr ''d1''), (''valves'', PList [PDict []])])\<rparr>"

text \<open>A status report whose valve number is null.\<close>

definition null_valve_message :: message where
  "null_valve_message =
     \<lparr>topic = ''agroirriga/d1/status'',
      payload = Inr (PDict [(''device_id'', PStr ''d1''),
                            (''valves'', PList [PDict [(''number'', PNone),
                                                       (''state'', PStr ''ON'')]])])\<rparr>"

text \<open>A store whose latest reading is hot and dry, and one whose zone 2 owns valves 4 and 5.\<close>

definition hot_world :: world where
  "hot_world = world0\<lparr>weather_readings := [hot_dry],
                        farm_zones := [\<lparr>fz_id = 1, fz_valves = [1, 2]\<rparr>]\<rparr>"

definition zone2_world :: world where
  "zone2_world = world0\<lparr>farm_zones := [\<lparr>fz_id = 2, fz_valves = [4, 5]\<rparr>]\<rparr>"

definition update_frame :: notification where
  "update_frame = \<lparr>ntype = ''mqtt_update'', ntopic = ''agroirriga/d1/status'', ndata = PNone\<rparr>"

definition three_observers :: world where
  "three_observers = world0\<lparr>connected_clients := [1, 2, 3]\<rparr>"

definition manual_on :: ValveCommand where
  "manual_on = \<lparr>cmd_state = True, cmd_duration_minutes = Some 10\<rparr>"

section \<open>Decision engine: the heuristic fallback\<close>

lemma heuristic_rules_numbers:
  assumes "rain_1h w = PNum r" and "humidity w = PNum h" and "temperature w = PNum t"
  shows "heuristic_rules w =
     Inr (if float_gt r 5 then (False, reason_rain)
          else if float_gt h 70 then (False, reason_humidity)
          else if float_gt t 30 \<and> float_lt h 40 then (True, reason_stress)
          else (False, []))"
  using assms by (auto simp: heuristic_rules_def split: bool.splits)

lemma heuristic_rain_first:
  "rain_1h w = PNum r \<Longrightarrow> float_gt r 5 \<Longrightarrow> heuristic_rules w = Inr (False, reason_rain)"
  by (simp add: heuristic_rules_def)

lemma heuristic_humidity_second:
  "rain_1h w = PNum r \<Longrightarrow> \<not> float_gt r 5 \<Longrightarrow> humidity w = PNum h \<Longrightarrow> float_gt h 70 \<Longrightarrow>
     heuristic_rules w = Inr (False, reason_humidity)"
  by (simp add: heuristic_rules_def)

text \<open>
  C1, as the code has it.  With no model, a null reading gives no irrigation and an
  empty reason.  For a reading whose compared fields are numbers the rules apply in
  order, the first match winning: rain above 5 gives no irrigation with the reason
  "Chuva recente detectada"; otherwise humidity above 70 gives no irrigation with the
  reason "Umidade ambiente alta"; otherwise temperature above 30 together with
  humidity below 40 gives irrigation of valves 1 and 2 with the reason "Condicoes de
  estresse hidrico" (written with its accents in the code); otherwise no irrigation
  and an empty reason.  Confidence is 0.7 and the duration 25 minutes in every case.
  A rule needs only the fields compared up to it to be numbers.
\<close>

theorem heuristic_precedence:
  "make_irrigation_decision None last_irrigation None =
     Inr \<lparr>should_irrigate = False, confidence = 7 / 10, reason = [],
          valves_to_open = [], duration_minutes = 25\<rparr>
   \<and> (rain_1h w = PNum r \<and> float_gt r 5 \<longrightarrow>
        make_irrigation_decision (Some w) last_irrigation None =
          Inr \<lparr>should_irrigate = False, confidence = 7 / 10, reason = reason_rain,
               valves_to_open = [], duration_minutes = 25\<rparr>)
   \<and> (rain_1h w = PNum r \<and> \<not> float_gt r 5 \<and> humidity w = PNum h \<and> float_gt h 70 \<longrightarrow>
        make_irrigation_decision (Some w) last_irrigation None =
          Inr \<lparr>should_irrigate = False, confidence = 7 / 10, reason = reason_humidity,
               valves_to_open = [], duration_minutes = 25\<rparr>)
   \<and> (rain_1h w = PNum r \<and> \<not> float_gt r 5 \<and> humidity w = PNum h \<and> \<not> float_gt h 70
        \<and> temperature w = PNum t \<and> float_gt t 30 \<and> float_lt h 40 \<longrightarrow>
        make_irrigation_decision (Some w) last_irrigation None =
          Inr \<lparr>should_irrigate = True, confidence = 7 / 10, reason = reason_stress,
               valves_to_open = [1, 2], duration_minutes = 25\<rparr>)
   \<and> (rain_1h w = PNum r \<and> \<not> float_gt r 5 \<and> humidity w = PNum h \<and> \<not> float_gt h 70
        \<and> temperature w = PNum t \<and> \<not> (float_gt t 30 \<and> float_lt h 40) \<longrightarrow>
        make_irrigation_decision (Some w) last_irrigation None =
          Inr \<lparr>should_irrigate = False, confidence = 7 / 10, reason = [],
               valves_to_open = [], duration_minutes = 25\<rparr>)"
proof (intro conjI impI)
  show "make_irrigation_decision None last_irrigation None =
     Inr \<lparr>should_irrigate = False, confidence = 7 / 10, reason = [],
          valves_to_open = [], duration_minutes = 25\<rparr>"
    by (simp add: make_irrigation_decision_def)
next
  assume "rain_1h w = PNum r \<and> float_gt r 5"
  then have "heuristic_rules w = Inr (False, reason_rain)"
    by (simp add: heuristic_rain_first)
  then show "make_irrigation_decision (Some w) last_irrigation None =
          Inr \<lparr>should_irrigate = False, confidence = 7 / 10, reason = reason_rain,
               valves_to_open = [], duration_minutes = 25\<rparr>"
    by (simp add: make_irrigation_decision_def)
next
  assume "rain_1h w = PNum r \<and> \<not> float_gt r 5 \<and> humidity w = PNum h \<and> float_gt h 70"
  then have "heuristic_rules w = Inr (False, reason_humidity)"
    by (simp add: heuristic_humidity_second)
  then show "make_irrigation_decision (Some w) last_irrigation None =
          Inr \<lparr>should_irrigate = False, confidence = 7 / 10, reason = reason_humidity,
               valves_to_open = [], duration_minutes = 25\<rparr>"
    by (simp add: make_irrigation_decision_def)
next
  assume "rain_1h w = PNum r \<and> \<not> float_gt r 5 \<and> humidity w = PNum h \<and> \<not> float_gt h 70
        \<and> temperature w = PNum t \<and> float_gt t 30 \<and> float_lt h 40"
  then have "heuristic_rules w = Inr (True, reason_stress)"
    by (simp add: heuristic_rules_numbers)
  then show "make_irrigation_decision (Some w) last_irrigation None =
          Inr \<lparr>should_irrigate = True, confidence = 7 / 10, reason = reason_stress,
               valves_to_open = [1, 2], duration_minutes = 25\<rparr>"
    by (simp add: make_irrigation_decision_def)
next
  assume "rain_1h w = PNum r \<and> \<not> float_gt r 5 \<and> humidity w = PNum h \<and> \<not> float_gt h 70
        \<and> temperature w = PNum t \<and> \<not> (float_gt t 30 \<and> float_lt h 40)"
  then have "heuristic_rules w = Inr (False, [])"
    by (simp add: heuristic_rules_numbers)
  then show "make_irrigation_decision (Some w) last_irrigation None =
          Inr \<lparr>should_irrigate = False, confidence = 7 / 10, reason = [],
               valves_to_open = [], duration_minutes = 25\<rparr>"
    by (simp add: make_irrigation_decision_def)
qed

text \<open>
  The four rules at four readings: rain 6; humidity 80 with no rain; 32 degrees at
  humidity 35; 20 degrees at humidity 50.
\<close>

theorem heuristic_precedence_witness:
  "make_irrigation_decision (Some rainy) None None =
     Inr \<lparr>should_irrigate = False, confidence = 7 / 10, reason = ''Chuva recente detectada'',
          valves_to_open = [], duration_minutes = 25\<rparr>
   \<and> make_irrigation_decision (Some humid) None None =
     Inr \<lparr>should_irrigate = False, confidence = 7 / 10, reason = ''Umidade ambiente alta'',
          valves_to_open = [], duration_minutes = 25\<rparr>
   \<and> make_irrigation_decision (Some hot_dry) None None =
     Inr \<lparr>should_irrigate = True, confidence = 7 / 10, reason = reason_stress,
          valves_to_open = [1, 2], duration_minutes = 25\<rparr>
   \<and> make_irrigation_decision (Some mild) None None =
     Inr \<lparr>should_irrigate = False, confidence = 7 / 10, reason = [],
          valves_to_open = [], duration_minutes = 25\<rparr>"
  using heuristic_precedence [of None rainy "Finite 6" "Finite 50" "Finite 20"]
    heuristic_precedence [of None humid "Finite 0" "Finite 80" "Finite 35"]
    heuristic_precedence [of None hot_dry "Finite 0" "Finite 35" "Finite 32"]
    heuristic_precedence [of None mild "Finite 0" "Finite 50" "Finite 20"]
  by (simp add: rainy_def humid_def hot_dry_def mild_def reading_def reason_rain_def
      reason_humidity_def)

text \<open>
  The reason of the first rule is the text the code holds, not the English text of
  the claim.
\<close>

theorem heuristic_reason_counterexample:
  "make_irrigation_decision (Some rainy) None None =
     Inr \<lparr>should_irrigate = False, confidence = 7 / 10, reason = ''Chuva recente detectada'',
          valves_to_open = [], duration_minutes = 25\<rparr>
   \<and> ''Chuva recente detectada'' \<noteq> ''recent rainfall detected''"
  by (simp add: make_irrigation_decision_def heuristic_rules_def rainy_def reading_def
      reason_rain_def)

lemma heuristic_shape:
  assumes "make_irrigation_decision weather last_irrigation None = Inr d"
  shows "confidence d = 7 / 10 \<and> duration_minutes d = 25
         \<and> valves_to_open d = (if should_irrigate d then [1, 2] else [])"
  using assms
  by (auto simp: make_irrigation_decision_def split: option.splits sum.splits)

lemma heuristic_never_blind:
  "make_irrigation_decision None last_irrigation None = Inr d \<Longrightarrow> \<not> should_irrigate d"
  by (auto simp: make_irrigation_decision_def)

text \<open>
  C10 at a reading the store really holds.  A weather payload without the key
  \<open>rain_1h\<close> is stored with a null \<open>rain_1h\<close>; on that reading the fallback
  raises \<open>TypeError\<close> at its first comparison and returns no decision, so
  \<open>smart_irrigation\<close> fails and changes nothing.  (Whenever the fallback does
  return, \<open>heuristic_shape\<close> gives the confidence, the duration and the valves the
  claim states.)
\<close>

theorem heuristic_null_field_raises:
  "save_weather_data 0 no_rain_payload world0 =
     Inr (world0\<lparr>weather_readings := [no_rain_field]\<rparr>)
   \<and> make_irrigation_decision (Some no_rain_field) None None = Inl TypeError
   \<and> smart_irrigation None 1 1 (world0\<lparr>weather_readings := [no_rain_field]\<rparr>) =
       (Inl TypeError, world0\<lparr>weather_readings := [no_rain_field]\<rparr>)"
  by (simp add: save_weather_data_def weather_row_def strict_commit_weather_def
      no_rain_payload_def get_or_def world0_def
      no_rain_field_def reading_def smart_irrigation_def make_irrigation_decision_def
      heuristic_rules_def)

section \<open>Decision engine: what the decision reads\<close>

text \<open>
  The decision reads three fields of the reading and nothing of the last irrigation
  event: readings that agree on temperature, humidity and rain give the same
  outcome, whatever their other fields and whatever the last event.
\<close>

lemma decision_reads_three_fields:
  assumes "temperature w1 = temperature w2" and "humidity w1 = humidity w2"
    and "rain_1h w1 = rain_1h w2"
  shows "make_irrigation_decision (Some w1) l1 model = make_irrigation_decision (Some w2) l2 model"
proof -
  have rules: "heuristic_rules w1 = heuristic_rules w2"
    by (simp only: heuristic_rules_def assms)
  have feats: "features_of (Some w1) = features_of (Some w2)"
    by (simp only: features_of_def option.case assms)
  show ?thesis
    unfolding make_irrigation_decision_def option.case rules feats by (rule refl)
qed

lemma decision_ignores_last_irrigation:
  "make_irrigation_decision weather l1 model = make_irrigation_decision weather l2 model"
  by (simp add: make_irrigation_decision_def)

section \<open>Decision engine: the model path\<close>

lemma fold_max_Max: "fold max ys (x::rat) = Max (set (x # ys))"
  by (rule Max.set_eq_fold [symmetric])

lemma ml_default_features:
  "features_of None = [[PNum (Finite 25), PNum (Finite 60), PNum (Finite 0)]]"
  by (simp add: features_of_def)

lemma ml_path_decision:
  assumes "predict m (features_of weather) = Inr (label # labels)"
    and "predict_proba m (features_of weather) = Inr ((p # ps) # rows)"
  shows "make_irrigation_decision weather last_irrigation (Some m) =
     Inr \<lparr>should_irrigate = (label = 1), confidence = Max (set (p # ps)),
          reason = ''ml_prediction'', valves_to_open = [1, 2, 3], duration_minutes = 30\<rparr>"
  using assms
  by (simp add: make_irrigation_decision_def first_of_def max_of_def fold_max_Max del: set_simps)

lemma smart_irrigation_ignores_zones:
  "fst (smart_irrigation ml_model now zone_id (w\<lparr>farm_zones := zones\<rparr>)) =
   fst (smart_irrigation ml_model now zone_id w)"
  by (simp add: smart_irrigation_def Let_def split: sum.splits)

text \<open>
  C4 at a store where zone 2 owns valves 4 and 5 and the model answers label 1 with
  top probability 0.9.  The decision has reason "ml_prediction", confidence 0.9 and
  duration 30, but its valves are the fixed list 1, 2, 3: \<open>smart_irrigation\<close> for
  zone 2 switches on valves 1, 2 and 3, none of which belongs to the zone.  (The
  defaults 25, 60, 0 and the rest of the model path are \<open>ml_default_features\<close> and
  \<open>ml_path_decision\<close>.)
\<close>

theorem zone_valves_ignored:
  "map fz_valves (filter (\<lambda>z. fz_id z = 2) (farm_zones zone2_world)) = [[4, 5]]
   \<and> smart_irrigation (Some always_irrigate) 0 2 zone2_world =
       (Inr \<lparr>should_irrigate = True, confidence = 9 / 10, reason = ''ml_prediction'',
             valves_to_open = [1, 2, 3], duration_minutes = 30\<rparr>,
        zone2_world\<lparr>published :=
            [(command_topic, [(''action'', FStr ''valve_on''), (''valve'', FInt 1),
                              (''duration'', FInt 30), (''reason'', FStr ''ml_recommendation'')]),
             (command_topic, [(''action'', FStr ''valve_on''), (''valve'', FInt 2),
                              (''duration'', FInt 30), (''reason'', FStr ''ml_recommendation'')]),
             (command_topic, [(''action'', FStr ''valve_on''), (''valve'', FInt 3),
                              (''duration'', FInt 30), (''reason'', FStr ''ml_recommendation'')])],
          irrigation_events :=
            [\<lparr>ev_valve_number = None, ev_zone_id = 2, action = ''SMART_ON'',
              ev_duration_minutes = Some 30, triggered_by = ''ml_model'',
              ev_confidence = Some (9 / 10), ev_timestamp = 0\<rparr>]\<rparr>)"
  by (simp add: smart_irrigation_def make_irrigation_decision_def always_irrigate_def
      first_of_def max_of_def zone2_world_def world0_def Let_def)

section \<open>Telemetry ingestion\<close>

text \<open>
  C2, as the code has it.  \<open>save_weather_data\<close> makes no check of its own.  For
  every dict payload, the reading it hands to the store carries the payload's
  humidity and \<open>rain_1h\<close> as received, null where the key is missing, whatever
  their range or sign.  The reading is committed when the store accepts it, as the
  store holds it; when the store raises, that exception leaves the function and
  nothing is stored.
\<close>

theorem weather_stored_unvalidated:
  "humidity (weather_row now kvs) = get_or kvs ''humidity'' PNone
   \<and> rain_1h (weather_row now kvs) = get_or kvs ''rain_1h'' PNone
   \<and> (commit_weather w (weather_row now kvs) = Inr stored \<longrightarrow>
        save_weather_data now (PDict kvs) w =
          Inr (w\<lparr>weather_readings := weather_readings w @ [stored]\<rparr>))
   \<and> (commit_weather w (weather_row now kvs) = Inl e \<longrightarrow>
        save_weather_data now (PDict kvs) w = Inl e)"
  by (simp add: save_weather_data_def weather_row_def)

text \<open>
  At the sample store a payload with humidity 150 and rain -3 is committed, and one
  whose humidity is a string is refused by the store, not by the function.
\<close>

theorem weather_stored_unvalidated_witness:
  "save_weather_data 0 out_of_range_payload world0 =
     Inr (world0\<lparr>weather_readings :=
            [\<lparr>temperature = PNone, humidity = PNum (Finite 150), pressure = PNone,
              wind_speed = PNone, rain_1h = PNum (Finite (- 3)), solar_radiation = PNone,
              wr_timestamp = 0, wr_device_id = PStr ''unknown''\<rparr>]\<rparr>)
   \<and> save_weather_data 0 text_humidity_payload world0 = Inl SQLAlchemyError"
proof -
  let ?kvs = "[(''humidity'', PNum (Finite 150)), (''rain_1h'', PNum (Finite (- 3)))]"
  let ?bad = "[(''humidity'', PStr ''wet'')]"
  have ok: "commit_weather world0 (weather_row 0 ?kvs) = Inr (weather_row 0 ?kvs)"
    by (simp add: world0_def strict_commit_weather_def weather_row_def get_or_def)
  have no: "commit_weather world0 (weather_row 0 ?bad) = Inl SQLAlchemyError"
    by (simp add: world0_def strict_commit_weather_def weather_row_def get_or_def)
  from weather_stored_unvalidated [of 0 ?kvs world0 "weather_row 0 ?kvs" SQLAlchemyError] ok
  have a: "save_weather_data 0 (PDict ?kvs) world0 =
             Inr (world0\<lparr>weather_readings := weather_readings world0 @ [weather_row 0 ?kvs]\<rparr>)"
    by blast
  from weather_stored_unvalidated [of 0 ?bad world0 "weather_row 0 ?bad" SQLAlchemyError] no
  have b: "save_weather_data 0 (PDict ?bad) world0 = Inl SQLAlchemyError"
    by blast
  show ?thesis
    using a b
    by (simp add: out_of_range_payload_def text_humidity_payload_def weather_row_def
        get_or_def world0_def)
qed

text \<open>A payload with humidity 150 and rain -3 is committed as it is.\<close>

theorem weather_validation_counterexample:
  "save_weather_data 0 out_of_range_payload world0 =
     Inr (world0\<lparr>weather_readings :=
            [\<lparr>temperature = PNone, humidity = PNum (Finite 150), pressure = PNone,
              wind_speed = PNone, rain_1h = PNum (Finite (- 3)), solar_radiation = PNone,
              wr_timestamp = 0, wr_device_id = PStr ''unknown''\<rparr>]\<rparr>)
   \<and> float_gt (Finite 150) 100 \<and> float_lt (Finite (- 3)) 0"
  by (simp add: save_weather_data_def weather_row_def strict_commit_weather_def
      out_of_range_payload_def world0_def get_or_def)

lemma save_valve_status_tasks:
  "save_valve_status now data w = Inr w' \<Longrightarrow> tasks w' = tasks w"
  by (auto simp: save_valve_status_def split: sum.splits)

lemma save_weather_data_tasks:
  "save_weather_data now data w = Inr w' \<Longrightarrow> tasks w' = tasks w"
  by (auto simp: save_weather_data_def split: pyval.splits sum.splits)

lemma handle_alert_tasks:
  "handle_alert data w = Inr w' \<Longrightarrow> tasks w' = tasks w"
  by (auto simp: handle_alert_def split: pyval.splits)

lemma route_by_topic_tasks:
  "route_by_topic now tp data w = Inr w' \<Longrightarrow> tasks w' = tasks w"
  by (auto simp: route_by_topic_def save_valve_status_tasks save_weather_data_tasks
      handle_alert_tasks split: if_splits)

text \<open>
  C6, as the code has it, for a handler called where \<open>asyncio.create_task\<close> can
  schedule (a thread with a running event loop).  For a message that parses, when
  the processing step returns, the state is the one the step left, with exactly one
  frame of type "mqtt_update", carrying the topic and the data, appended to the
  scheduled notifications.  When the processing step raises, in the handler's own
  code or at the store's commit, the exception is swallowed, nothing is stored and
  no notification is scheduled.
\<close>

theorem notification_follows_processing:
  "(payload msg = Inr data \<and> route_by_topic now (topic msg) data w = Inr w' \<longrightarrow>
      on_mqtt_message True now msg w =
        w'\<lparr>tasks := tasks w @
             [\<lparr>ntype = ''mqtt_update'', ntopic = topic msg, ndata = data\<rparr>]\<rparr>)
   \<and> (payload msg = Inr data \<and> route_by_topic now (topic msg) data w = Inl e \<longrightarrow>
      on_mqtt_message running_loop now msg w = w)"
  by (auto simp: on_mqtt_message_def dest: route_by_topic_tasks)

text \<open>
  A status report for valve 3 is stored and announced.  A report whose valve entry
  lacks its keys, and one whose valve number is null and which the store refuses,
  are dropped without announcement.
\<close>

theorem notification_follows_processing_witness:
  "on_mqtt_message True 7 status_message world0 =
     world0\<lparr>solenoid_states :=
               [\<lparr>ss_valve_number = PNum (Finite 3), ss_state = True, ss_timestamp = 7,
                 ss_device_id = PStr ''d1''\<rparr>],
            tasks :=
               [\<lparr>ntype = ''mqtt_update'', ntopic = ''agroirriga/d1/status'',
                 ndata = PDict [(''device_id'', PStr ''d1''),
                            (''valves'', PList [PDict [(''number'', PNum (Finite 3)),
                                                       (''state'', PStr ''ON'')]])]\<rparr>]\<rparr>
   \<and> on_mqtt_message True 7 broken_status_message world0 = world0
   \<and> on_mqtt_message True 7 null_valve_message world0 = world0"
proof -
  let ?data = "PDict [(''device_id'', PStr ''d1''),
                      (''valves'', PList [PDict [(''number'', PNum (Finite 3)),
                                                 (''state'', PStr ''ON'')]])]"
  let ?w' = "world0\<lparr>solenoid_states :=
               [\<lparr>ss_valve_number = PNum (Finite 3), ss_state = True, ss_timestamp = 7,
                 ss_device_id = PStr ''d1''\<rparr>]\<rparr>"
  let ?bad = "PDict [(''device_id'', PStr ''d1''), (''valves'', PList [PDict []])]"
  let ?null = "PDict [(''device_id'', PStr ''d1''),
                      (''valves'', PList [PDict [(''number'', PNone),
                                                 (''state'', PStr ''ON'')]])]"
  have p: "payload status_message = Inr ?data"
    by (simp add: status_message_def)
  have r: "route_by_topic 7 (topic status_message) ?data world0 = Inr ?w'"
    by (simp add: status_message_def route_by_topic_def save_valve_status_def dict_get_def
        get_or_def py_iter_def subscript_def world0_def strict_commit_states_def)
  have pb: "payload broken_status_message = Inr ?bad"
    by (simp add: broken_status_message_def)
  have rb: "route_by_topic 7 (topic broken_status_message) ?bad world0 = Inl KeyError"
    by (simp add: broken_status_message_def route_by_topic_def save_valve_status_def
        dict_get_def get_or_def py_iter_def subscript_def world0_def)
  have pn: "payload null_valve_message = Inr ?null"
    by (simp add: null_valve_message_def)
  have rn: "route_by_topic 7 (topic null_valve_message) ?null world0 = Inl SQLAlchemyError"
    by (simp add: null_valve_message_def route_by_topic_def save_valve_status_def
        dict_get_def get_or_def py_iter_def subscript_def world0_def strict_commit_states_def)
  from notification_follows_processing [of status_message ?data 7 world0 ?w' KeyError True] p r
  have a: "on_mqtt_message True 7 status_message world0 =
        ?w'\<lparr>tasks := tasks world0 @
             [\<lparr>ntype = ''mqtt_update'', ntopic = topic status_message, ndata = ?data\<rparr>]\<rparr>"
    by blast
  from notification_follows_processing [of broken_status_message ?bad 7 world0 world0 KeyError True]
    pb rb
  have b: "on_mqtt_message True 7 broken_status_message world0 = world0"
    by blast
  from notification_follows_processing
    [of null_valve_message ?null 7 world0 world0 SQLAlchemyError True] pn rn
  have c: "on_mqtt_message True 7 null_valve_message world0 = world0"
    by blast
  show ?thesis
    using a b c by (simp add: world0_def status_message_def)
qed

text \<open>
  The report with an empty valve entry parses, \<open>save_valve_status\<close> raises
  \<open>KeyError\<close> on it, and no notification is scheduled.
\<close>

theorem notification_skipped_counterexample:
  "payload broken_status_message =
     Inr (PDict [(''device_id'', PStr ''d1''), (''valves'', PList [PDict []])])
   \<and> save_valve_status 0 (PDict [(''device_id'', PStr ''d1''), (''valves'', PList [PDict []])])
        world0 = Inl KeyError
   \<and> on_mqtt_message True 0 broken_status_message world0 = world0
   \<and> tasks world0 = []"
  by (simp add: on_mqtt_message_def broken_status_message_def route_by_topic_def
      save_valve_status_def dict_get_def get_or_def py_iter_def subscript_def world0_def)

section \<open>Command dispatch\<close>

lemma control_valve_logs_manual:
  assumes "1 \<le> valve_number" and "valve_number \<le> 10"
  shows "\<exists>e. irrigation_events (snd (control_valve now valve_number command w)) =
               irrigation_events w @ [e]
           \<and> triggered_by e = ''manual'' \<and> ev_valve_number e = Some valve_number"
  using assms by (simp add: control_valve_def Let_def)

lemma smart_irrigation_logs_ml:
  assumes "fst (smart_irrigation ml_model now zone_id w) = Inr d" and "should_irrigate d"
  shows "\<exists>e. irrigation_events (snd (smart_irrigation ml_model now zone_id w)) =
               irrigation_events w @ [e]
           \<and> triggered_by e = ''ml_model'' \<and> ev_zone_id e = zone_id"
  using assms by (auto simp: smart_irrigation_def Let_def split: sum.splits if_splits)

lemma smart_irrigation_idle:
  assumes "fst (smart_irrigation ml_model now zone_id w) = Inr d" and "\<not> should_irrigate d"
  shows "snd (smart_irrigation ml_model now zone_id w) = w"
  using assms by (auto simp: smart_irrigation_def Let_def split: sum.splits if_splits)

lemma all_valves_off_events:
  "irrigation_events (snd (all_valves_off now w)) = irrigation_events w"
  by (simp add: all_valves_off_def)

text \<open>
  C3 at the empty state.  \<open>all_valves_off\<close> publishes the command "valve_all_off"
  and appends no irrigation event: the event log is as empty as before.  (A manual
  command in range appends one event marked "manual", and a smart command that
  dispatches appends one marked "ml_model": \<open>control_valve_logs_manual\<close>,
  \<open>smart_irrigation_logs_ml\<close>.)
\<close>

theorem all_off_logs_nothing:
  "all_valves_off 0 world0 =
     (Inr (), world0\<lparr>published :=
        [(command_topic, [(''action'', FStr ''valve_all_off''), (''timestamp'', FTime 0)])]\<rparr>)
   \<and> irrigation_events (snd (all_valves_off 0 world0)) = []"
  by (simp add: all_valves_off_def world0_def)

text \<open>
  C5.  For every valve number below 1 or above 10, \<open>control_valve\<close> raises the
  HTTP 400 rejection before anything else: nothing is published, no event is
  appended, the state is the one it was called in.
\<close>

theorem out_of_range_rejected:
  "valve_number < 1 \<or> valve_number > 10 \<Longrightarrow>
     control_valve now valve_number command w = (Inl (HTTPException 400), w)"
  by (simp add: control_valve_def)

theorem out_of_range_rejected_witness:
  "control_valve 0 0 manual_on world0 = (Inl (HTTPException 400), world0)
   \<and> control_valve 0 11 manual_on world0 = (Inl (HTTPException 400), world0)
   \<and> published world0 = [] \<and> irrigation_events world0 = []"
  using out_of_range_rejected [of 0 0 manual_on world0]
    out_of_range_rejected [of 11 0 manual_on world0]
  by (simp add: world0_def)

section \<open>Periodic tasks\<close>

lemma advisor_rounds:
  "ml_irrigation_advisor n (slept, w) = (slept + n * 21600, w)"
  by (induction n arbitrary: slept) simp_all

text \<open>
  C7 at a store whose latest reading is 32 degrees at humidity 35 with no rain.  One
  round of \<open>ml_irrigation_advisor\<close> sleeps 21600 seconds and leaves the state as it
  was: no zone is evaluated, nothing is published, no event is appended.  A call of
  \<open>smart_irrigation\<close> for zone 1 at that moment would have switched on two valves
  and appended an event.
\<close>

theorem advisor_dispatches_nothing:
  "ml_irrigation_advisor 1 (0, hot_world) = (21600, hot_world)
   \<and> smart_irrigation None 21600 1 hot_world =
       (Inr \<lparr>should_irrigate = True, confidence = 7 / 10, reason = reason_stress,
             valves_to_open = [1, 2], duration_minutes = 25\<rparr>,
        hot_world\<lparr>published :=
            [(command_topic, [(''action'', FStr ''valve_on''), (''valve'', FInt 1),
                              (''duration'', FInt 25), (''reason'', FStr ''ml_recommendation'')]),
             (command_topic, [(''action'', FStr ''valve_on''), (''valve'', FInt 2),
                              (''duration'', FInt 25), (''reason'', FStr ''ml_recommendation'')])],
          irrigation_events :=
            [\<lparr>ev_valve_number = None, ev_zone_id = 1, action = ''SMART_ON'',
              ev_duration_minutes = Some 25, triggered_by = ''ml_model'',
              ev_confidence = Some (7 / 10), ev_timestamp = 21600\<rparr>]\<rparr>)"
  by (simp add: advisor_rounds smart_irrigation_def make_irrigation_decision_def
      heuristic_rules_def hot_world_def hot_dry_def reading_def world0_def Let_def)

section \<open>Live notification\<close>

lemma send_loop_stop:
  "\<not> i < length clients \<Longrightarrow>
     send_loop send_json message interference i clients = ([], [], clients)"
  by (subst send_loop.simps) simp

lemma send_loop_step:
  "i < length clients \<Longrightarrow>
     send_loop send_json message interference i clients =
       (let (sent, disconnected, final) =
              send_loop send_json message (tl interference) (Suc i)
                (fold apply_change (case interference of [] \<Rightarrow> [] | changes # later \<Rightarrow> changes)
                   clients)
        in if send_json (clients ! i) message
           then ((clients ! i, message) # sent, disconnected, final)
           else (sent, clients ! i # disconnected, final))"
  by (subst send_loop.simps) (simp add: Let_def)

lemma send_loop_quiet:
  "send_loop send_json message [] i clients =
     (map (\<lambda>c. (c, message)) (filter (\<lambda>c. send_json c message) (drop i clients)),
      filter (\<lambda>c. \<not> send_json c message) (drop i clients),
      clients)"
proof (induction "length clients - i" arbitrary: i)
  case 0
  then show ?case by (simp add: send_loop_stop)
next
  case (Suc n)
  then have less: "i < length clients" and rest: "n = length clients - Suc i"
    by simp_all
  have step: "drop i clients = clients ! i # drop (Suc i) clients"
    using less by (simp add: Cons_nth_drop_Suc)
  show ?case
    using less by (simp add: send_loop_step Suc.hyps(1) [OF rest] step)
qed

lemma remove_loop_failed:
  "remove_loop (filter (\<lambda>c. \<not> ok c) ys) (filter ok xs @ ys) = filter ok xs @ filter ok ys"
proof (induction ys arbitrary: xs)
  case Nil
  show ?case by simp
next
  case (Cons y ys)
  show ?case
  proof (cases "ok y")
    case True
    have "remove_loop (filter (\<lambda>c. \<not> ok c) ys) (filter ok (xs @ [y]) @ ys)
          = filter ok (xs @ [y]) @ filter ok ys"
      by (rule Cons.IH)
    with True show ?thesis by simp
  next
    case False
    then have "remove1 y (filter ok xs @ y # ys) = filter ok xs @ ys"
      by (simp add: remove1_append)
    with False Cons.IH [of xs] show ?thesis by simp
  qed
qed

lemma remove_loop_filter:
  "remove_loop (filter (\<lambda>c. \<not> ok c) clients) clients = filter ok clients"
  using remove_loop_failed [of ok clients "[]"] by simp

text \<open>
  A broadcast during which no other task touches the list tries every registered
  observer, delivers to each whose send returns, and leaves registered exactly
  those.
\<close>

lemma broadcast_uninterrupted:
  "connected_clients (notify_clients send_json [] message w) =
     filter (\<lambda>c. send_json c message) (connected_clients w)
   \<and> delivered (notify_clients send_json [] message w) =
     delivered w @ map (\<lambda>c. (c, message)) (filter (\<lambda>c. send_json c message) (connected_clients w))"
  by (simp add: notify_clients_def send_loop_quiet remove_loop_filter)

text \<open>
  C8 on a run in which the list changes during the broadcast.  Observers 1, 2 and 3
  are registered.  The send to observer 1 raises, and while the broadcast is
  suspended in that send the endpoint of observer 1 removes its handle from the
  list.  The iterator, at position 1 of the list as it now is, goes on with
  observer 3: observer 2, registered throughout and able to receive, is never
  tried.  Without the interference the same broadcast reaches observers 2 and 3.
\<close>

theorem broadcast_skips_observer:
  "connected_clients three_observers = [1, 2, 3]
   \<and> notify_clients (\<lambda>c m. c \<noteq> 1) [[Disconnect 1]] update_frame three_observers =
       three_observers\<lparr>connected_clients := [2, 3], delivered := [(3, update_frame)]\<rparr>
   \<and> notify_clients (\<lambda>c m. c \<noteq> 1) [] update_frame three_observers =
       three_observers\<lparr>connected_clients := [2, 3],
                       delivered := [(2, update_frame), (3, update_frame)]\<rparr>"
  by (simp add: notify_clients_def send_loop_step send_loop_stop three_observers_def world0_def)


end
